theory Spec2Isabelle
  imports Complex_Main "HOL-Library.Sublist"
begin

section \<open>Response-generation orchestration of the search assistant\<close>

text \<open>
  A shallow embedding of \<^verbatim>\<open>src/client/modules/textGeneration.ts\<close>. The module is a
  coordination script over a publish/subscribe store and three inference libraries.
  The store is the record \<open>world\<close>; everything the module cannot decide by itself (the
  search service, the keyword extractor, the inference runtimes, the wall clock, the
  user pressing the stop button, the moment at which the concurrent search task
  finishes) is the record \<open>env\<close>. An \<^verbatim>\<open>async\<close> function is a state transformer that
  returns either a value or the thrown error; every \<^verbatim>\<open>await\<close> is a suspension point at
  which the environment may act on the store.
\<close>

subsection \<open>Data\<close>

text \<open>A thrown JavaScript value, kept by its message.\<close>

datatype error = Error string

datatype 'a result = Return 'a | Throw error

text \<open>
  The values of the text-generation state that the module reads or writes are
  \<^verbatim>\<open>"loadingModel"\<close>, \<^verbatim>\<open>"awaitingSearchResults"\<close>, \<^verbatim>\<open>"preparingToGenerate"\<close>,
  \<^verbatim>\<open>"generating"\<close>, \<^verbatim>\<open>"interrupted"\<close>, \<^verbatim>\<open>"failed"\<close> and \<^verbatim>\<open>"completed"\<close>.
  Modelled from the spec: the declaration of the type lives in the store module, which
  is not part of the sources; \<open>idle\<close> is the initial value named by the glossary.
\<close>

datatype text_generation_state =
  idle | loadingModel | awaitingSearchResults | preparingToGenerate | generating
  | interrupted | failed | completed

text \<open>The search state; the module writes \<^verbatim>\<open>"running"\<close>, \<^verbatim>\<open>"failed"\<close> and \<^verbatim>\<open>"completed"\<close>.\<close>

datatype search_state = searchIdle | running | searchFailed | searchCompleted

text \<open>A text result is the array \<^verbatim>\<open>[title, snippet, url]\<close>.\<close>

type_synonym text_result = "string \<times> string \<times> string"

record search_results =
  textResults :: "text_result list"
  imageResults :: "string list list"

text \<open>
  The promise returned by \<^verbatim>\<open>startSearch\<close>: pending (with the query the task was
  started with), fulfilled with the results, or rejected.
\<close>

datatype search_promise = Pending string | Fulfilled search_results | Rejected error

record settings =
  enableAiResponse :: bool
  enableWebGpu :: bool
  inferenceType :: string
  searchResultsToConsider :: int
  openAiApiBaseUrl :: string
  openAiApiKey :: string
  openAiApiModel :: string
  webLlmModelId :: string
  wllamaModelId :: string
  cpuThreads :: int

text \<open>
  The calls into the libraries, by callee; \<^verbatim>\<open>abortSignal()\<close> is called at two
  places of \<^verbatim>\<open>onNewToken\<close>, on an interruption and on a stop string.
\<close>

datatype call_site =
  NewOpenAI | OpenAiCreate | AbortController
  | ImportWebLlm | HasModelInCache | CreateWebWorkerMLCEngine | CreateMLCEngine
  | WebLlmCreate | InterruptGenerate | RuntimeStatsText | EngineUnload
  | ImportWllama | InitializeWllama | BuildPrompt | CreateCompletion | AbortSignal
  | AbortSignalOnStopString | WllamaExit

text \<open>
  Every effect of the module is appended to a trace: the writes to the store, the write
  to the rate limiter's own \<^verbatim>\<open>lastUpdateTime\<close>, the calls into the libraries with their
  string arguments, the arrival of a streamed chunk or token, and what the environment
  does while the routine is suspended.
\<close>

datatype event =
  TitleSet string
  | ResponseUpdated string
  | SearchResultsUpdated search_results
  | SearchPromiseUpdated
  | SearchStateUpdated search_state
  | TextGenerationStateUpdated text_generation_state
  | ModelLoadingProgressUpdated int
  | LogEntryAdded string
  | LastUpdateTimeSet int
  | Searched string int
  | SearchPromiseAwaited
  | SearchPromiseSettled
  | Called call_site "string list"
  | TokenReceived call_site
  | UserInterrupted

record world =
  query :: string
  response :: string
  searchResults :: search_results
  searchState :: search_state
  searchPromise :: search_promise
  textGenerationState :: text_generation_state
  settings :: settings
  modelLoadingProgress :: int
  documentTitle :: string
  logEntries :: "string list"
  lastUpdateTime :: int
  ticks :: nat
  trace :: "event list"

text \<open>
  A streamed chunk, by the \<^verbatim>\<open>delta.content\<close> of each of its \<^verbatim>\<open>choices\<close>
  (\<open>None\<close> for \<^verbatim>\<open>null\<close> or \<^verbatim>\<open>undefined\<close>).
\<close>

datatype chunk = Chunk (choices: "string option list")

text \<open>
  An entry of \<^verbatim>\<open>wllamaModels\<close>, with the fields the module reads. The version of the
  table in the sources has other field names than the ones this module reads, so the
  entry is a parameter.
\<close>

record wllama_model =
  url :: string
  contextSize :: int
  cacheType :: string
  shouldIncludeUrlsOnPrompt :: bool
  stopStrings :: "string list option"
  buildPrompt :: "string \<Rightarrow> string \<Rightarrow> string"

text \<open>
  The environment. \<open>userInterrupts k\<close> says whether the user sets the generation state
  to \<^verbatim>\<open>"interrupted"\<close> while the routine is suspended for the \<open>k\<close>-th time,
  \<open>searchFinishesAt\<close> is the suspension during which the concurrent search task runs to
  its end, \<open>clock k\<close> is what \<^verbatim>\<open>Date.now()\<close> returns after the \<open>k\<close>-th suspension,
  \<open>searchApi n\<close> is the answer of the \<open>n\<close>-th call of \<^verbatim>\<open>search\<close>, and \<open>fails c\<close> is the
  error that the library call \<open>c\<close> throws, if any.
\<close>

record env =
  isWebGPUAvailable :: bool
  userInterrupts :: "nat \<Rightarrow> bool"
  searchFinishesAt :: nat
  clock :: "nat \<Rightarrow> int"
  searchApi :: "nat \<Rightarrow> string \<Rightarrow> int \<Rightarrow> error + search_results"
  extractKeywords :: "string \<Rightarrow> string list"
  getSystemPrompt :: "string \<Rightarrow> string"
  prettyMilliseconds :: "int \<Rightarrow> string"
  fails :: "call_site \<Rightarrow> error option"
  openAiChunks :: "chunk list"
  openAiStreamError :: "error option"
  hasModelInCache :: bool
  workerAvailable :: bool
  webLlmProgress :: "int list"
  webLlmChunks :: "chunk list"
  webLlmStreamError :: "error option"
  runtimeStatsText :: string
  wllamaModels :: "string \<Rightarrow> wllama_model option"
  wllamaProgress :: "int list"
  wllamaTokens :: "string list"

subsection \<open>Asynchronous functions as state transformers\<close>

type_synonym 'a prog = "world \<Rightarrow> 'a result \<times> world"

definition return :: "'a \<Rightarrow> 'a prog" where
  "return x = (\<lambda>s. (Return x, s))"

definition throw :: "error \<Rightarrow> 'a prog" where
  "throw e = (\<lambda>s. (Throw e, s))"

definition bind :: "'a prog \<Rightarrow> ('a \<Rightarrow> 'b prog) \<Rightarrow> 'b prog" where
  "bind f g = (\<lambda>s. case f s of (Return x, s') \<Rightarrow> g x s' | (Throw e, s') \<Rightarrow> (Throw e, s'))"

definition seq :: "'a prog \<Rightarrow> 'b prog \<Rightarrow> 'b prog" where
  "seq f g = bind f (\<lambda>_. g)"

definition tryCatch :: "'a prog \<Rightarrow> (error \<Rightarrow> 'a prog) \<Rightarrow> 'a prog" where
  "tryCatch f h = (\<lambda>s. case f s of (Throw e, s') \<Rightarrow> h e s' | (Return x, s') \<Rightarrow> (Return x, s'))"

definition tryFinally :: "'a prog \<Rightarrow> unit prog \<Rightarrow> 'a prog" where
  "tryFinally f g =
     (\<lambda>s. case f s of (r, s') \<Rightarrow>
        (case g s' of (Return _, s'') \<Rightarrow> (r, s'') | (Throw e, s'') \<Rightarrow> (Throw e, s'')))"

definition effect :: "(world \<Rightarrow> world) \<Rightarrow> unit prog" where
  "effect u = (\<lambda>s. (Return (), u s))"

definition reading :: "(world \<Rightarrow> 'a) \<Rightarrow> ('a \<Rightarrow> 'b prog) \<Rightarrow> 'b prog" where
  "reading f k = (\<lambda>s. k (f s) s)"

definition onlyIf :: "bool \<Rightarrow> unit prog \<Rightarrow> unit prog" where
  "onlyIf b f = (if b then f else return ())"

fun block :: "unit prog list \<Rightarrow> unit prog" where
  "block [] = return ()"
| "block (f # fs) = seq f (block fs)"

subsection \<open>The store\<close>

definition logEvent :: "event \<Rightarrow> world \<Rightarrow> world" where
  "logEvent e s = s\<lparr>trace := trace s @ [e]\<rparr>"

definition setDocumentTitle :: "string \<Rightarrow> world \<Rightarrow> world" where
  "setDocumentTitle t s = logEvent (TitleSet t) (s\<lparr>documentTitle := t\<rparr>)"

definition updateResponse :: "string \<Rightarrow> world \<Rightarrow> world" where
  "updateResponse text s = logEvent (ResponseUpdated text) (s\<lparr>response := text\<rparr>)"

definition updateSearchResults :: "search_results \<Rightarrow> world \<Rightarrow> world" where
  "updateSearchResults r s = logEvent (SearchResultsUpdated r) (s\<lparr>searchResults := r\<rparr>)"

definition updateSearchPromise :: "search_promise \<Rightarrow> world \<Rightarrow> world" where
  "updateSearchPromise p s = logEvent SearchPromiseUpdated (s\<lparr>searchPromise := p\<rparr>)"

definition updateSearchState :: "search_state \<Rightarrow> world \<Rightarrow> world" where
  "updateSearchState st s = logEvent (SearchStateUpdated st) (s\<lparr>searchState := st\<rparr>)"

definition updateTextGenerationState :: "text_generation_state \<Rightarrow> world \<Rightarrow> world" where
  "updateTextGenerationState st s =
     logEvent (TextGenerationStateUpdated st) (s\<lparr>textGenerationState := st\<rparr>)"

definition updateModelLoadingProgress :: "int \<Rightarrow> world \<Rightarrow> world" where
  "updateModelLoadingProgress p s =
     logEvent (ModelLoadingProgressUpdated p) (s\<lparr>modelLoadingProgress := p\<rparr>)"

definition addLogEntry :: "string \<Rightarrow> world \<Rightarrow> world" where
  "addLogEntry m s = logEvent (LogEntryAdded m) (s\<lparr>logEntries := logEntries s @ [m]\<rparr>)"

subsection \<open>JavaScript library functions\<close>

text \<open>\<^verbatim>\<open>Array.prototype.join\<close>.\<close>

fun join :: "string \<Rightarrow> string list \<Rightarrow> string" where
  "join sep [] = []"
| "join sep [x] = x"
| "join sep (x # y # ys) = x @ sep @ join sep (y # ys)"

text \<open>
  \<^verbatim>\<open>xs.slice(0, end)\<close> for an integer \<open>end\<close>: a negative \<open>end\<close> counts from the end of
  the array.
\<close>

definition slice0 :: "'a list \<Rightarrow> int \<Rightarrow> 'a list" where
  "slice0 xs end = (if end < 0 then take (nat (int (length xs) + end)) xs else take (nat end) xs)"

text \<open>\<^verbatim>\<open>s.slice(-k)\<close> for \<open>k \<ge> 0\<close>: the last \<open>k\<close> elements, and all of \<open>s\<close> for \<open>k = 0\<close>.\<close>

definition sliceLast :: "'a list \<Rightarrow> nat \<Rightarrow> 'a list" where
  "sliceLast xs k = (if k = 0 then xs else drop (length xs - k) xs)"

text \<open>\<^verbatim>\<open>s.slice(0, -k)\<close> for \<open>k \<ge> 0\<close>: all but the last \<open>k\<close> elements, and nothing for \<open>k = 0\<close>.\<close>

definition sliceButLast :: "'a list \<Rightarrow> nat \<Rightarrow> 'a list" where
  "sliceButLast xs k = (if k = 0 then [] else take (length xs - k) xs)"

text \<open>The decimal numeral of a natural number, as a template literal prints it.\<close>

fun showNat :: "nat \<Rightarrow> string" where
  "showNat n =
     (if n < 10 then [''0123456789'' ! n]
      else showNat (n div 10) @ [''0123456789'' ! (n mod 10)])"

declare showNat.simps [simp del]

text \<open>\<^verbatim>\<open>`${error}`\<close> for an \<^verbatim>\<open>Error\<close> object.\<close>

fun showError :: "error \<Rightarrow> string" where
  "showError (Error m) = ''Error: '' @ m"

subsection \<open>Suspension points and the concurrent search task\<close>

text \<open>\<^verbatim>\<open>getKeywords(text, limit)\<close>: the extracted keywords, \<^verbatim>\<open>.slice(0, limit)\<close>.\<close>

definition getKeywords :: "env \<Rightarrow> string \<Rightarrow> nat option \<Rightarrow> string list" where
  "getKeywords env text limit =
     (case limit of None \<Rightarrow> extractKeywords env text | Some n \<Rightarrow> take n (extractKeywords env text))"

text \<open>The \<open>n\<close>-th call of \<^verbatim>\<open>search(text, limit)\<close>; the service may reject.\<close>

definition search :: "env \<Rightarrow> nat \<Rightarrow> string \<Rightarrow> int \<Rightarrow> search_results prog" where
  "search env n text limit =
     (\<lambda>s. case searchApi env n text limit of
        Inl e \<Rightarrow> (Throw e, logEvent (Searched text limit) s)
      | Inr r \<Rightarrow> (Return r, logEvent (Searched text limit) s))"

text \<open>
  \<^verbatim>\<open>startSearch\<close> runs up to its first \<^verbatim>\<open>await\<close> inside the caller
  (\<open>startSearch_begin\<close>); the rest (\<open>startSearch_resume\<close>) runs while the caller is
  suspended. Its two writes to the store are one synchronous block.
\<close>

definition startSearch_begin :: "world \<Rightarrow> world" where
  "startSearch_begin = updateSearchState running"

definition startSearch_resume :: "env \<Rightarrow> string \<Rightarrow> search_results prog" where
  "startSearch_resume env queryText =
     bind (search env 0
             (if length queryText > 2000 then join '' '' (getKeywords env queryText (Some 20))
              else queryText) 30)
       (\<lambda>firstResults.
     bind (if length (textResults firstResults) = 0
           then search env 1 (join '' '' (getKeywords env queryText (Some 10))) 30
           else return firstResults)
       (\<lambda>results.
     seq (effect (updateSearchState
                    (if length (textResults results) = 0 then searchFailed
                     else searchCompleted)))
    (seq (effect (updateSearchResults results))
       (return results))))"

definition startSearch :: "env \<Rightarrow> string \<Rightarrow> search_results prog" where
  "startSearch env queryText = seq (effect startSearch_begin) (startSearch_resume env queryText)"

text \<open>
  Awaiting the promise of the search: a pending task runs to its end now, a settled
  promise gives its value or its error.
\<close>

definition awaitPromise :: "env \<Rightarrow> search_results prog" where
  "awaitPromise env =
     (\<lambda>s. case searchPromise s of
        Pending q \<Rightarrow>
          (case startSearch_resume env q s of
             (Return r, s') \<Rightarrow>
               (Return r, logEvent SearchPromiseSettled (s'\<lparr>searchPromise := Fulfilled r\<rparr>))
           | (Throw e, s') \<Rightarrow>
               (Throw e, logEvent SearchPromiseSettled (s'\<lparr>searchPromise := Rejected e\<rparr>)))
      | Fulfilled r \<Rightarrow> (Return r, s)
      | Rejected e \<Rightarrow> (Throw e, s))"

text \<open>
  One suspension of the routine: the user may press the stop button, and the search task
  may run to its end.
\<close>

definition suspend :: "env \<Rightarrow> world \<Rightarrow> world" where
  "suspend env s =
     (let k = ticks s;
          s1 = s\<lparr>ticks := Suc k\<rparr>;
          s2 = (if userInterrupts env k
                then logEvent UserInterrupted (s1\<lparr>textGenerationState := interrupted\<rparr>)
                else s1)
      in if searchFinishesAt env \<le> k then snd (awaitPromise env s2) else s2)"

definition untilUiIsUpdated :: "env \<Rightarrow> unit prog" where
  "untilUiIsUpdated env = effect (suspend env)"

text \<open>\<^verbatim>\<open>await getSearchPromise()\<close>.\<close>

definition awaitSearchPromise :: "env \<Rightarrow> unit prog" where
  "awaitSearchPromise env =
     seq (effect (suspend env))
       (\<lambda>s. case awaitPromise env s of
          (Return r, s') \<Rightarrow> (Return (), logEvent SearchPromiseAwaited s')
        | (Throw e, s') \<Rightarrow> (Throw e, logEvent SearchPromiseAwaited s'))"

text \<open>A library call that returns at once, and one that is awaited.\<close>

definition settle :: "env \<Rightarrow> call_site \<Rightarrow> unit prog" where
  "settle env c =
     (\<lambda>s. case fails env c of
        None \<Rightarrow> (Return (), suspend env s)
      | Some e \<Rightarrow> (Throw e, suspend env s))"

definition call :: "env \<Rightarrow> call_site \<Rightarrow> string list \<Rightarrow> unit prog" where
  "call env c args =
     (\<lambda>s. case fails env c of
        None \<Rightarrow> (Return (), logEvent (Called c args) s)
      | Some e \<Rightarrow> (Throw e, logEvent (Called c args) s))"

definition awaitCallDuring ::
  "env \<Rightarrow> call_site \<Rightarrow> string list \<Rightarrow> (world \<Rightarrow> world) \<Rightarrow> unit prog" where
  "awaitCallDuring env c args during =
     block [effect (logEvent (Called c args)), effect during, settle env c]"

definition awaitCall :: "env \<Rightarrow> call_site \<Rightarrow> string list \<Rightarrow> unit prog" where
  "awaitCall env c args = awaitCallDuring env c args id"

subsection \<open>The functions of the module\<close>

definition getFormattedSearchResults :: "bool \<Rightarrow> world \<Rightarrow> string" where
  "getFormattedSearchResults shouldIncludeUrl s =
     (let results = slice0 (textResults (searchResults s)) (searchResultsToConsider (settings s))
      in if length results = 0 then ''None.''
         else if shouldIncludeUrl then
           join [CHR 0x0A]
             (map (\<lambda>(index, (title, snippet, url)).
                     showNat (index + 1) @ ''. ['' @ title @ '']('' @ url @ '') | '' @ snippet)
                (enumerate 0 results))
         else
           join [CHR 0x0A]
             (map (\<lambda>(title, snippet, url). ''- '' @ title @ '' | '' @ snippet) results))"

definition canStartResponding :: "env \<Rightarrow> unit prog" where
  "canStartResponding env =
     reading settings (\<lambda>st.
       onlyIf (searchResultsToConsider st > 0)
         (block [
            effect (updateTextGenerationState awaitingSearchResults),
            untilUiIsUpdated env,
            awaitSearchPromise env]))"

definition updateInterval :: rat where
  "updateInterval = 1000 / 12"

definition updateResponseRateLimited :: "env \<Rightarrow> string \<Rightarrow> world \<Rightarrow> world" where
  "updateResponseRateLimited env text s =
     (let currentTime = clock env (ticks s)
      in if of_int (currentTime - lastUpdateTime s) \<ge> updateInterval
         then logEvent (LastUpdateTimeSet currentTime)
                ((updateResponse text s)\<lparr>lastUpdateTime := currentTime\<rparr>)
         else s)"

text \<open>
  What each of the three backends does with a streamed token before it forwards the
  text: the token has arrived (\<open>TokenReceived\<close>, for the completion call \<open>site\<close> it
  belongs to), the generation state is read, and the backend's own abort is called
  when the state is \<^verbatim>\<open>"interrupted"\<close>.
\<close>

definition pollInterruption :: "call_site \<Rightarrow> unit prog \<Rightarrow> unit prog" where
  "pollInterruption site abort =
     seq (effect (logEvent (TokenReceived site)))
       (reading textGenerationState (\<lambda>st.
          if st = interrupted then abort
          else if st \<noteq> generating then effect (updateTextGenerationState generating)
          else return ()))"

text \<open>
  The \<^verbatim>\<open>for await\<close> loop of the OpenAI and of the WebLLM backend, which differ in the
  call that aborts (\<open>abort\<close>) only. Waiting for the next chunk is a suspension; the
  stream ends normally or with an error. \<^verbatim>\<open>chunk.choices[0].delta\<close> throws a TypeError
  on a chunk without choices, which carries no token.
\<close>

fun streamLoop ::
  "env \<Rightarrow> call_site \<Rightarrow> unit prog \<Rightarrow> chunk list \<Rightarrow> error option \<Rightarrow> string \<Rightarrow> string prog" where
  "streamLoop env site abort [] final streamedMessage =
     seq (effect (suspend env))
       (case final of None \<Rightarrow> return streamedMessage | Some e \<Rightarrow> throw e)"
| "streamLoop env site abort (chunk # rest) final streamedMessage =
     seq (effect (suspend env))
       (case choices chunk of
          [] \<Rightarrow> throw (Error ''TypeError: chunk.choices[0] is undefined'')
        | deltaContent # _ \<Rightarrow>
            (let streamedMessage' =
               (case deltaContent of
                  None \<Rightarrow> streamedMessage
                | Some d \<Rightarrow> if d \<noteq> [] then streamedMessage @ d else streamedMessage)
             in seq (pollInterruption site abort)
               (seq (effect (updateResponseRateLimited env streamedMessage'))
                  (streamLoop env site abort rest final streamedMessage'))))"

definition generateTextWithOpenAI :: "env \<Rightarrow> unit prog" where
  "generateTextWithOpenAI env =
     reading settings (\<lambda>st.
       block [
         call env NewOpenAI [openAiApiBaseUrl st, openAiApiKey st],
         canStartResponding env,
         effect (updateTextGenerationState preparingToGenerate),
         untilUiIsUpdated env,
         reading id (\<lambda>s. awaitCall env OpenAiCreate
           [openAiApiModel st, getSystemPrompt env (getFormattedSearchResults True s), query s]),
         bind (streamLoop env OpenAiCreate (call env AbortController [])
                 (openAiChunks env) (openAiStreamError env) [])
           (\<lambda>streamedMessage. effect (updateResponse streamedMessage))])"

definition generateTextWithWebLlm :: "env \<Rightarrow> unit prog" where
  "generateTextWithWebLlm env =
     seq (awaitCall env ImportWebLlm [])
       (reading (\<lambda>s. webLlmModelId (settings s)) (\<lambda>selectedModelId.
          block [
            effect (addLogEntry (''Selected WebLLM model: '' @ selectedModelId)),
            awaitCall env HasModelInCache [selectedModelId],
            onlyIf (hasModelInCache env)
              (block [effect (updateTextGenerationState preparingToGenerate),
                      untilUiIsUpdated env]),
            awaitCallDuring env
              (if workerAvailable env then CreateWebWorkerMLCEngine else CreateMLCEngine)
              [selectedModelId]
              (if hasModelInCache env then id
               else fold updateModelLoadingProgress (webLlmProgress env)),
            reading (\<lambda>s. enableAiResponse (settings s)) (\<lambda>enabled.
              onlyIf enabled
                (block [
                   canStartResponding env,
                   effect (updateTextGenerationState preparingToGenerate),
                   untilUiIsUpdated env,
                   reading id (\<lambda>s. awaitCall env WebLlmCreate
                     [getSystemPrompt env (getFormattedSearchResults True s), query s]),
                   bind (streamLoop env WebLlmCreate (awaitCall env InterruptGenerate [])
                           (webLlmChunks env) (webLlmStreamError env) [])
                     (\<lambda>streamedMessage. effect (updateResponse streamedMessage))])),
            awaitCall env RuntimeStatsText [],
            effect (addLogEntry
              (''WebLLM finished generating the response. Stats: '' @ runtimeStatsText env)),
            call env EngineUnload []]))"

text \<open>The progress callback of the Wllama loader, with its local \<^verbatim>\<open>loadingPercentage\<close>.\<close>

fun progressCallback :: "int \<Rightarrow> int list \<Rightarrow> world \<Rightarrow> world" where
  "progressCallback loadingPercentage [] s = s"
| "progressCallback loadingPercentage (progressPercentage # rest) s =
     (if loadingPercentage \<noteq> progressPercentage
      then progressCallback progressPercentage rest (updateModelLoadingProgress progressPercentage s)
      else progressCallback loadingPercentage rest s)"

text \<open>The loop over \<^verbatim>\<open>model.stopStrings\<close> in \<^verbatim>\<open>onNewToken\<close>, left at the first hit.\<close>

fun stopStringLoop :: "unit prog \<Rightarrow> string list \<Rightarrow> string \<Rightarrow> string prog" where
  "stopStringLoop abort [] currentText = return currentText"
| "stopStringLoop abort (stopString # rest) currentText =
     (if sublist stopString (sliceLast currentText (length stopString * 2))
      then seq abort (return (sliceButLast currentText (length stopString)))
      else stopStringLoop abort rest currentText)"

text \<open>
  \<^verbatim>\<open>onNewToken\<close>, called by the library once for each token with the text so far; the
  result is the last value of \<^verbatim>\<open>streamedMessage\<close>.
\<close>

fun onNewToken :: "env \<Rightarrow> wllama_model \<Rightarrow> string list \<Rightarrow> string \<Rightarrow> string prog" where
  "onNewToken env model [] streamedMessage = return streamedMessage"
| "onNewToken env model (currentText # rest) streamedMessage =
     seq (effect (suspend env))
    (seq (pollInterruption CreateCompletion (call env AbortSignal []))
    (bind (case stopStrings model of
             None \<Rightarrow> return currentText
           | Some strs \<Rightarrow> stopStringLoop (call env AbortSignalOnStopString []) strs currentText)
       (\<lambda>currentText'.
          seq (effect (updateResponseRateLimited env currentText'))
            (onNewToken env model rest currentText'))))"

definition generateTextWithWllama :: "env \<Rightarrow> unit prog" where
  "generateTextWithWllama env =
     seq (awaitCall env ImportWllama [])
       (reading (\<lambda>s. wllamaModelId (settings s)) (\<lambda>modelId.
          case wllamaModels env modelId of
            None \<Rightarrow> throw (Error ''TypeError: model is undefined'')
          | Some model \<Rightarrow>
              block [
                awaitCallDuring env InitializeWllama [url model]
                  (progressCallback 0 (wllamaProgress env)),
                reading (\<lambda>s. enableAiResponse (settings s)) (\<lambda>enabled.
                  onlyIf enabled
                    (block [
                       canStartResponding env,
                       effect (updateTextGenerationState preparingToGenerate),
                       untilUiIsUpdated env,
                       reading id (\<lambda>s. awaitCall env BuildPrompt
                         [query s,
                          getFormattedSearchResults (shouldIncludeUrlsOnPrompt model) s]),
                       reading id (\<lambda>s. effect (logEvent (Called CreateCompletion
                         [buildPrompt model (query s)
                            (getFormattedSearchResults (shouldIncludeUrlsOnPrompt model) s)]))),
                       bind (bind (onNewToken env model (wllamaTokens env) [])
                               (\<lambda>streamedMessage.
                                  seq (settle env CreateCompletion) (return streamedMessage)))
                         (\<lambda>streamedMessage. effect (updateResponse streamedMessage))])),
                awaitCall env WllamaExit []]))"

text \<open>
  Lines 42 to 57 of \<^verbatim>\<open>prepareTextGeneration\<close>: the choice of the backend, with the
  inner \<^verbatim>\<open>try\<close> around the WebLLM backend.
\<close>

definition webLlmAttempt :: "env \<Rightarrow> settings \<Rightarrow> unit prog" where
  "webLlmAttempt env st =
     block [
       onlyIf (\<not> isWebGPUAvailable env) (throw (Error ''WebGPU is not available.'')),
       onlyIf (\<not> enableWebGpu st) (throw (Error ''WebGPU is disabled.'')),
       generateTextWithWebLlm env]"

definition wllamaFallback :: "env \<Rightarrow> error \<Rightarrow> unit prog" where
  "wllamaFallback env err =
     block [
       effect (addLogEntry (''Skipping text generation with WebLLM: '' @ showError err)),
       effect (addLogEntry ''Starting text generation with Wllama''),
       generateTextWithWllama env]"

definition generateText :: "env \<Rightarrow> unit prog" where
  "generateText env =
     reading settings (\<lambda>st.
       if inferenceType st = ''openai'' then generateTextWithOpenAI env
       else tryCatch (webLlmAttempt env st) (wllamaFallback env))"

text \<open>Lines 41 to 64: the outer \<^verbatim>\<open>try\<close> with its \<^verbatim>\<open>catch\<close>.\<close>

definition generateOrFail :: "env \<Rightarrow> unit prog" where
  "generateOrFail env =
     tryCatch
       (seq (generateText env)
          (reading textGenerationState (\<lambda>st.
             onlyIf (st \<noteq> interrupted) (effect (updateTextGenerationState completed)))))
       (\<lambda>err.
          block [
            effect (addLogEntry (''Error generating text: '' @ showError err)),
            effect (updateTextGenerationState failed)])"

definition prepareTextGeneration :: "env \<Rightarrow> unit prog" where
  "prepareTextGeneration env =
     reading query (\<lambda>q.
       if q = [] then return ()
       else
         block [
           effect (setDocumentTitle q),
           effect (updateResponse []),
           effect (updateSearchResults \<lparr>textResults = [], imageResults = []\<rparr>),
           effect startSearch_begin,
           effect (updateSearchPromise (Pending q)),
           reading (\<lambda>s. enableAiResponse (settings s)) (\<lambda>enabled.
             onlyIf enabled
               (reading (\<lambda>s. clock env (ticks s)) (\<lambda>responseGenerationStartTime.
                  block [
                    effect (updateTextGenerationState loadingModel),
                    untilUiIsUpdated env,
                    tryFinally (generateOrFail env) (untilUiIsUpdated env),
                    reading (\<lambda>s. clock env (ticks s)) (\<lambda>now.
                      effect (addLogEntry
                        (''Response generation took '' @
                           prettyMilliseconds env (now - responseGenerationStartTime))))])))])"

subsection \<open>Definitions for the statements\<close>

text \<open>The line of the formatted search results for the \<open>i\<close>-th result, numbered from 1.\<close>

definition resultLine :: "bool \<Rightarrow> nat \<Rightarrow> text_result \<Rightarrow> string" where
  "resultLine shouldIncludeUrl i =
     (\<lambda>(title, snippet, url).
        if shouldIncludeUrl then showNat i @ ''. ['' @ title @ '']('' @ url @ '') | '' @ snippet
        else ''- '' @ title @ '' | '' @ snippet)"

text \<open>
  The formatted search results as the specification words them: \<^verbatim>\<open>"None."\<close> when there
  are no text results, and otherwise the lines of at most \<^verbatim>\<open>searchResultsToConsider\<close>
  results, joined by newlines.
\<close>

definition getFormattedSearchResults_claimed :: "bool \<Rightarrow> world \<Rightarrow> string" where
  "getFormattedSearchResults_claimed shouldIncludeUrl s =
     (let results = textResults (searchResults s);
          considered = take (nat (searchResultsToConsider (settings s))) results
      in if results = [] then ''None.''
         else join [CHR 0x0A]
                (map (\<lambda>i. resultLine shouldIncludeUrl (i + 1) (considered ! i))
                   [0..<length considered]))"

subsection \<open>Example inputs\<close>

definition exampleSettings :: settings where
  "exampleSettings =
     \<lparr>enableAiResponse = True, enableWebGpu = True, inferenceType = ''openai'',
      searchResultsToConsider = 2, openAiApiBaseUrl = ''https://api'', openAiApiKey = ''key'',
      openAiApiModel = ''gpt'', webLlmModelId = ''webllm-model'', wllamaModelId = ''wllama-model'',
      cpuThreads = 1\<rparr>"

definition exampleResults :: search_results where
  "exampleResults =
     \<lparr>textResults = [(''Cats'', ''About cats'', ''https://cats''),
                     (''Dogs'', ''About dogs'', ''https://dogs''),
                     (''Birds'', ''About birds'', ''https://birds'')],
      imageResults = []\<rparr>"

definition exampleWorld :: world where
  "exampleWorld =
     \<lparr>query = ''cats'', response = ''old answer'', searchResults = exampleResults,
      searchState = searchIdle, searchPromise = Fulfilled exampleResults,
      textGenerationState = idle, settings = exampleSettings, modelLoadingProgress = 0,
      documentTitle = [], logEntries = [], lastUpdateTime = 0, ticks = 0, trace = []\<rparr>"

section \<open>The formatted search results\<close>

lemma slice0_nonneg: "0 \<le> n \<Longrightarrow> slice0 xs n = take (nat n) xs"
  by (simp add: slice0_def)

lemma map_enumerate_nth:
  "map f (enumerate 0 xs) = map (\<lambda>i. f (i, xs ! i)) [0..<length xs]"
  by (rule nth_equalityI) (simp_all add: nth_enumerate_eq)

lemma map_by_index: "map g xs = map (\<lambda>i. g (xs ! i)) [0..<length xs]"
  by (rule nth_equalityI) simp_all

text \<open>
  C10, as the code has it. For a non-negative \<^verbatim>\<open>searchResultsToConsider\<close>,
  \<^verbatim>\<open>getFormattedSearchResults\<close> looks at the first \<^verbatim>\<open>searchResultsToConsider\<close> text
  results only: it returns \<^verbatim>\<open>"None."\<close> when there are none of them (no text results,
  or a setting of zero), and otherwise the newline-joined lines of exactly these
  results, \<^verbatim>\<open>i. [title](url) | snippet\<close> numbered from 1 with URLs and
  \<^verbatim>\<open>- title | snippet\<close> without. The number of formatted results is at most the setting.
\<close>

theorem getFormattedSearchResults_first_results:
  assumes "0 \<le> searchResultsToConsider (settings s)"
  shows "getFormattedSearchResults shouldIncludeUrl s =
           (let considered = take (nat (searchResultsToConsider (settings s)))
                               (textResults (searchResults s))
            in if considered = [] then ''None.''
               else join [CHR 0x0A]
                      (map (\<lambda>i. resultLine shouldIncludeUrl (i + 1) (considered ! i))
                         [0..<length considered]))
         \<and> int (length (slice0 (textResults (searchResults s))
                           (searchResultsToConsider (settings s))))
             \<le> searchResultsToConsider (settings s)"
proof -
  let ?rs = "take (nat (searchResultsToConsider (settings s))) (textResults (searchResults s))"
  have numbered: "map (\<lambda>(index, (title, snippet, url)).
                     showNat (index + 1) @ ''. ['' @ title @ '']('' @ url @ '') | '' @ snippet)
                (enumerate 0 ?rs) = map (\<lambda>i. resultLine True (i + 1) (?rs ! i)) [0..<length ?rs]"
    unfolding map_enumerate_nth by (simp add: resultLine_def split: prod.splits)
  have bullets: "map (\<lambda>(title, snippet, url). ''- '' @ title @ '' | '' @ snippet) ?rs
                 = map (\<lambda>i. resultLine False (i + 1) (?rs ! i)) [0..<length ?rs]"
    by (subst map_by_index) (simp add: resultLine_def split: prod.splits)
  have "int (length ?rs) \<le> searchResultsToConsider (settings s)"
    using assms by simp
  then show ?thesis
    unfolding getFormattedSearchResults_def slice0_nonneg [OF assms] Let_def numbered bullets
    by (cases shouldIncludeUrl) (auto simp: min_def)
qed

theorem getFormattedSearchResults_first_results_witness:
  "0 \<le> searchResultsToConsider (settings exampleWorld)
   \<and> getFormattedSearchResults True exampleWorld
       = ''1. [Cats](https://cats) | About cats'' @ [CHR 0x0A]
         @ ''2. [Dogs](https://dogs) | About dogs''"
proof -
  have h: "0 \<le> searchResultsToConsider (settings exampleWorld)"
    by (simp add: exampleWorld_def exampleSettings_def)
  note r = getFormattedSearchResults_first_results [OF h, of True, THEN conjunct1]
  show ?thesis
    unfolding r by code_simp
qed

text \<open>
  C10 as it is stated fails when there are text results and the setting is zero: the
  code returns \<^verbatim>\<open>"None."\<close>, and the list of at most zero formatted results is the empty
  string.
\<close>

theorem getFormattedSearchResults_zero_counterexample:
  "textResults (searchResults
      (exampleWorld\<lparr>settings := exampleSettings\<lparr>searchResultsToConsider := 0\<rparr>\<rparr>)) \<noteq> []
   \<and> getFormattedSearchResults True
       (exampleWorld\<lparr>settings := exampleSettings\<lparr>searchResultsToConsider := 0\<rparr>\<rparr>) = ''None.''
   \<and> getFormattedSearchResults_claimed True
       (exampleWorld\<lparr>settings := exampleSettings\<lparr>searchResultsToConsider := 0\<rparr>\<rparr>) = []"
  by (simp add: getFormattedSearchResults_def getFormattedSearchResults_claimed_def slice0_def
      exampleWorld_def exampleSettings_def exampleResults_def)

end
